theory Spec2Isabelle
  imports Main
begin

section \<open>Command wrappers of git-buildpackage (gbp/command_wrappers.py)\<close>

text \<open>
  The module wraps external programs. Everything outside the module is made explicit:
  the logging collaborator appends to a log, the process-launch boundary records
  every request it receives and answers through an oracle (the operating system),
  and the process working directory is a field of the world.
\<close>

subsection \<open>Python values and built-ins used by the module\<close>

text \<open>
  The exceptions that occur in the module. \<open>CommandExecFailed\<close> carries its
  optional message (\<^verbatim>\<open>raise CommandExecFailed\<close> has none), the others
  carry the text that \<^verbatim>\<open>str\<close> gives for them.
\<close>

datatype exn =
    CommandExecFailed "string option"
  | GbpError string
  | OSError string
  | ValueError string
  | TypeError string

text \<open>\<^verbatim>\<open>sep.join(xs)\<close>\<close>

fun str_join :: "string \<Rightarrow> string list \<Rightarrow> string" where
  "str_join sep [] = []"
| "str_join sep [x] = x"
| "str_join sep (x # y # ys) = x @ sep @ str_join sep (y # ys)"

text \<open>\<^verbatim>\<open>s.split(c)\<close> for a separator of one character: never an empty list.\<close>

fun str_split :: "char \<Rightarrow> string \<Rightarrow> string list" where
  "str_split sep [] = [[]]"
| "str_split sep (c # cs) =
     (if c = sep then [] # str_split sep cs
      else (case str_split sep cs of
              [] \<Rightarrow> [[c]]
            | x # xs \<Rightarrow> (c # x) # xs))"

text \<open>\<^verbatim>\<open>"%d" % n\<close>: the decimal digits, with a minus sign for a negative number.\<close>

fun str_of_nat :: "nat \<Rightarrow> string" where
  "str_of_nat n =
     (if n < 10 then [''0123456789'' ! n]
      else str_of_nat (n div 10) @ [''0123456789'' ! (n mod 10)])"

declare str_of_nat.simps [simp del]

definition str_of_int :: "int \<Rightarrow> string" where
  "str_of_int i = (if i < 0 then ''-'' @ str_of_nat (nat (- i)) else str_of_nat (nat i))"

text \<open>
  \<^verbatim>\<open>repr\<close> of a byte string (Python 2): single quotes unless the string holds a
  single quote and no double quote; the quote and the backslash are escaped, tab,
  newline and carriage return are written as escapes, every other byte outside the
  printable ASCII range as \<^verbatim>\<open>\xNN\<close>.
\<close>

definition hex2 :: "nat \<Rightarrow> string" where
  "hex2 n = [''0123456789abcdef'' ! (n div 16 mod 16), ''0123456789abcdef'' ! (n mod 16)]"

definition repr_quote :: "string \<Rightarrow> char" where
  "repr_quote s =
     (if CHR 0x27 \<in> set s \<and> CHR 0x22 \<notin> set s then CHR 0x22 else CHR 0x27)"

definition repr_char :: "char \<Rightarrow> char \<Rightarrow> string" where
  "repr_char quote c =
     (if c = quote \<or> c = CHR 0x5C then [CHR 0x5C, c]
      else if c = CHR 0x09 then [CHR 0x5C, CHR ''t'']
      else if c = CHR 0x0A then [CHR 0x5C, CHR ''n'']
      else if c = CHR 0x0D then [CHR 0x5C, CHR ''r'']
      else if (of_char c :: nat) < 32 \<or> (of_char c :: nat) \<ge> 127
        then [CHR 0x5C, CHR ''x''] @ hex2 (of_char c)
      else [c])"

definition repr_str :: "string \<Rightarrow> string" where
  "repr_str s =
     (let quote = repr_quote s in [quote] @ concat (map (repr_char quote) s) @ [quote])"

text \<open>\<^verbatim>\<open>str\<close> of a list of byte strings, as \<^verbatim>\<open>"%s" % xs\<close> prints it.\<close>

definition str_of_list :: "string list \<Rightarrow> string" where
  "str_of_list xs = ''['' @ str_join '', '' (map repr_str xs) @ '']''"

subsection \<open>\<^verbatim>\<open>os.path\<close> (posixpath)\<close>

definition startswith :: "string \<Rightarrow> string \<Rightarrow> bool" where
  "startswith s p = (take (length p) s = p)"

definition endswith :: "string \<Rightarrow> string \<Rightarrow> bool" where
  "endswith s p = (length p \<le> length s \<and> drop (length s - length p) s = p)"

text \<open>
  The loop of \<^verbatim>\<open>normpath\<close> over the components; \<open>initial_slashes\<close> is 0, 1
  or 2 and \<open>new_comps\<close> the components kept so far.
\<close>

fun normpath_comps :: "nat \<Rightarrow> string list \<Rightarrow> string list \<Rightarrow> string list" where
  "normpath_comps initial_slashes [] new_comps = new_comps"
| "normpath_comps initial_slashes (c # comps) new_comps =
     (if c = '''' \<or> c = ''.'' then normpath_comps initial_slashes comps new_comps
      else if c \<noteq> ''..'' \<or> (initial_slashes = 0 \<and> new_comps = [])
                \<or> (new_comps \<noteq> [] \<and> last new_comps = ''..'')
        then normpath_comps initial_slashes comps (new_comps @ [c])
      else if new_comps \<noteq> [] then normpath_comps initial_slashes comps (butlast new_comps)
      else normpath_comps initial_slashes comps new_comps)"

definition os_path_normpath :: "string \<Rightarrow> string" where
  "os_path_normpath path =
     (if path = '''' then ''.''
      else
        let initial_slashes =
              (if startswith path ''/''
               then (if startswith path ''//'' \<and> \<not> startswith path ''///'' then 2 else 1)
               else (0::nat));
            comps = normpath_comps initial_slashes (str_split CHR ''/'' path) [];
            path' = str_join ''/'' comps;
            path'' = (if initial_slashes \<noteq> 0
                      then concat (replicate initial_slashes ''/'') @ path' else path')
        in if path'' = '''' then ''.'' else path'')"

definition os_path_isabs :: "string \<Rightarrow> bool" where
  "os_path_isabs s = startswith s ''/''"

text \<open>\<^verbatim>\<open>os.path.join(a, b)\<close> with one further component.\<close>

definition os_path_join :: "string \<Rightarrow> string \<Rightarrow> string" where
  "os_path_join a b =
     (if startswith b ''/'' then b
      else if a = '''' \<or> endswith a ''/'' then a @ b
      else a @ ''/'' @ b)"

definition os_path_curdir :: string where
  "os_path_curdir = ''.''"

text \<open>\<^verbatim>\<open>os.path.abspath(path)\<close>; \<open>getcwd\<close> is what \<^verbatim>\<open>os.getcwd()\<close> returns.\<close>

definition os_path_abspath :: "string \<Rightarrow> string \<Rightarrow> string" where
  "os_path_abspath getcwd path =
     os_path_normpath (if \<not> os_path_isabs path then os_path_join getcwd path else path)"

subsection \<open>The world outside the module\<close>

text \<open>The logging collaborator: \<^verbatim>\<open>log.debug\<close> and \<^verbatim>\<open>log.err\<close>.\<close>

datatype log_entry = Debug string | Err string

text \<open>
  What \<^verbatim>\<open>subprocess.call\<close> receives: the command (a list of arguments, or one
  string when a shell interprets it), and the keyword arguments. The pre-exec hook
  is always \<^verbatim>\<open>default_sigpipe\<close>, which resets SIGPIPE in the child.
\<close>

datatype cmdline = Argv "string list" | ShellString string

datatype preexec = Default_sigpipe

record launch =
  launch_cmd :: cmdline
  launch_cwd :: "string option"
  launch_shell :: bool
  launch_env :: "(string \<rightharpoonup> string) option"
  launch_preexec_fn :: preexec

text \<open>
  What \<^verbatim>\<open>subprocess.call\<close> answers: it raises \<^verbatim>\<open>OSError\<close> when the
  child cannot be created, and otherwise returns the return code (the exit status,
  or minus the signal number when a signal ended the child).
\<close>

datatype outcome = LaunchFailed string | Returned int

record world =
  log :: "log_entry list"
  dispatched :: "launch list"
  process_cwd :: string

definition log_debug :: "string \<Rightarrow> world \<Rightarrow> world" where
  "log_debug msg w = w\<lparr>log := log w @ [Debug msg]\<rparr>"

definition log_err :: "string \<Rightarrow> world \<Rightarrow> world" where
  "log_err msg w = w\<lparr>log := log w @ [Err msg]\<rparr>"

text \<open>The error-level lines of the log, in order.\<close>

fun err_lines :: "log_entry list \<Rightarrow> string list" where
  "err_lines [] = []"
| "err_lines (Debug m # es) = err_lines es"
| "err_lines (Err m # es) = m # err_lines es"

subsection \<open>\<^verbatim>\<open>class Command\<close>\<close>

record command =
  cmd :: string
  args :: "string list"
  run_error :: string
  shell :: bool
  retcode :: int
  cwd :: "string option"
  env :: "(string \<rightharpoonup> string) option"

text \<open>
  \<^verbatim>\<open>Command.__init__(self, cmd, args, shell, extra_env, cwd)\<close>;
  \<open>os_environ\<close> is the environment of the invoking process.
\<close>

definition Command_init ::
  "(string \<rightharpoonup> string) \<Rightarrow> string \<Rightarrow> string list \<Rightarrow> bool \<Rightarrow> (string \<rightharpoonup> string) option
     \<Rightarrow> string option \<Rightarrow> command" where
  "Command_init os_environ c a sh extra_env d =
     \<lparr> cmd = c,
       args = a,
       run_error = ''Couldn'' @ [CHR 0x27] @ ''t run '' @ [CHR 0x27]
                     @ str_join '' '' ([c] @ a) @ [CHR 0x27],
       shell = sh,
       retcode = 1,
       cwd = d,
       env = (case extra_env of
                Some extra \<Rightarrow> Some (os_environ ++ extra)
              | None \<Rightarrow> None) \<rparr>"

text \<open>
  The command and the keyword arguments that \<^verbatim>\<open>Command.__call\<close> passes to
  \<^verbatim>\<open>subprocess.call\<close>.
\<close>

definition launch_request :: "'a command_scheme \<Rightarrow> string list \<Rightarrow> launch" where
  "launch_request self a =
     (let v = [cmd self] @ args self @ a
      in \<lparr> launch_cmd = (if shell self then ShellString (str_join '' '' v) else Argv v),
           launch_cwd = cwd self,
           launch_shell = shell self,
           launch_env = env self,
           launch_preexec_fn = Default_sigpipe \<rparr>)"

text \<open>
  \<^verbatim>\<open>Command.__call\<close>: logs the call at debug level and hands the request to
  \<^verbatim>\<open>subprocess.call\<close>; \<open>sys\<close> is the operating system's answer to a
  launch request.
\<close>

definition Command_private_call ::
  "'a command_scheme \<Rightarrow> string list \<Rightarrow> (launch \<Rightarrow> outcome) \<Rightarrow> world
     \<Rightarrow> (exn + int) \<times> world" where
  "Command_private_call self a sys w =
     (let w1 = log_debug (cmd self @ '' '' @ str_of_list (args self) @ '' '' @ str_of_list a) w;
          l = launch_request self a;
          w2 = w1\<lparr>dispatched := dispatched w1 @ [l]\<rparr>
      in case sys l of
           LaunchFailed e \<Rightarrow> (Inl (OSError e), w2)
         | Returned n \<Rightarrow> (Inr n, w2))"

text \<open>
  \<^verbatim>\<open>Command.__run\<close>: errors are logged and encoded in the return value, which
  is also stored in \<open>retcode\<close>.
\<close>

definition Command_private_run ::
  "'a command_scheme \<Rightarrow> string list \<Rightarrow> (launch \<Rightarrow> outcome) \<Rightarrow> world
     \<Rightarrow> (exn + int) \<times> 'a command_scheme \<times> world" where
  "Command_private_run self a sys w =
     (let (r, w1) =
            (case Command_private_call self a sys w of
               (Inr n, w') \<Rightarrow>
                 (if n < 0
                    then (Inr n, log_err (cmd self @ '' was terminated by signal ''
                                            @ str_of_int (- n)) w')
                  else if n > 0
                    then (Inr n, log_err (cmd self @ '' returned '' @ str_of_int n) w')
                  else (Inr n, w'))
             | (Inl (OSError e), w') \<Rightarrow> (Inr 1, log_err (''Execution failed: '' @ e) w')
             | (Inl other, w') \<Rightarrow> (Inl other, w'))
      in case r of
           Inl other \<Rightarrow> (Inl other, self, w1)
         | Inr rc \<Rightarrow>
             (Inr rc, self\<lparr>retcode := rc\<rparr>,
              if rc \<noteq> 0 then log_err (run_error self) w1 else w1))"

text \<open>\<^verbatim>\<open>Command.__call__\<close>, the strict form: any nonzero result is raised.\<close>

definition Command_dunder_call ::
  "'a command_scheme \<Rightarrow> string list \<Rightarrow> (launch \<Rightarrow> outcome) \<Rightarrow> world
     \<Rightarrow> (exn + unit) \<times> 'a command_scheme \<times> world" where
  "Command_dunder_call self a sys w =
     (case Command_private_run self a sys w of
        (Inl other, self', w') \<Rightarrow> (Inl other, self', w')
      | (Inr rc, self', w') \<Rightarrow>
          (if rc \<noteq> 0 then (Inl (CommandExecFailed None), self', w')
           else (Inr (), self', w')))"

text \<open>\<^verbatim>\<open>Command.call\<close>, the lenient form: the caller gets the return code.\<close>

definition Command_call ::
  "'a command_scheme \<Rightarrow> string list \<Rightarrow> (launch \<Rightarrow> outcome) \<Rightarrow> world
     \<Rightarrow> (exn + int) \<times> 'a command_scheme \<times> world" where
  "Command_call self a sys w =
     (case Command_private_call self a sys w of
        (Inl (OSError e), w') \<Rightarrow>
          (Inl (CommandExecFailed (Some (''Execution failed: '' @ e))), self, w')
      | (Inl other, w') \<Rightarrow> (Inl other, self, w')
      | (Inr ret, w') \<Rightarrow> (Inr ret, self, w'))"

subsection \<open>\<^verbatim>\<open>class RunAtCommand\<close>\<close>

text \<open>
  \<^verbatim>\<open>os.chdir(path)\<close>. The file system decides: \<open>fs d path\<close> is the
  directory that \<open>path\<close> names for a process whose working directory is
  \<open>d\<close>, or the text of the \<^verbatim>\<open>OSError\<close> when the directory cannot be entered.
\<close>

definition os_chdir ::
  "(string \<Rightarrow> string \<Rightarrow> string + string) \<Rightarrow> string \<Rightarrow> world \<Rightarrow> (exn + unit) \<times> world" where
  "os_chdir fs path w =
     (case fs (process_cwd w) path of
        Inl e \<Rightarrow> (Inl (OSError e), w)
      | Inr d \<Rightarrow> (Inr (), w\<lparr>process_cwd := d\<rparr>))"

text \<open>
  The positional arguments after \<open>dir\<close> and \<^verbatim>\<open>list(*args)\<close>: no argument
  gives the empty list, one argument is iterated (a string gives its characters),
  more than one is a \<^verbatim>\<open>TypeError\<close>.
\<close>

datatype py_arg = PyStr string | PyList "string list"

definition list_star :: "py_arg list \<Rightarrow> exn + string list" where
  "list_star extra =
     (case extra of
        [] \<Rightarrow> Inr []
      | [PyStr s] \<Rightarrow> Inr (map (\<lambda>c. [c]) s)
      | [PyList xs] \<Rightarrow> Inr xs
      | _ \<Rightarrow> Inl (TypeError (''list() takes at most 1 argument (''
                            @ str_of_nat (length extra) @ '' given)'')))"

text \<open>
  \<^verbatim>\<open>RunAtCommand.__call__(self, dir, *args)\<close>. The body of the
  \<^verbatim>\<open>try\<close> block first, then the call with its handler, which changes back
  and re-raises (an error of the handler's own \<^verbatim>\<open>chdir\<close> replaces the one
  being handled).
\<close>

definition RunAtCommand_try ::
  "'a command_scheme \<Rightarrow> string \<Rightarrow> py_arg list \<Rightarrow> string
     \<Rightarrow> (string \<Rightarrow> string \<Rightarrow> string + string) \<Rightarrow> (launch \<Rightarrow> outcome) \<Rightarrow> world
     \<Rightarrow> (exn + unit) \<times> 'a command_scheme \<times> world" where
  "RunAtCommand_try self dir extra curdir fs sys w =
     (case os_chdir fs dir w of
        (Inl e, w1) \<Rightarrow> (Inl e, self, w1)
      | (Inr u, w1) \<Rightarrow>
          (case list_star extra of
             Inl e \<Rightarrow> (Inl e, self, w1)
           | Inr a \<Rightarrow>
               (case Command_dunder_call self a sys w1 of
                  (Inl e, self', w2) \<Rightarrow> (Inl e, self', w2)
                | (Inr u', self', w2) \<Rightarrow>
                    (case os_chdir fs curdir w2 of
                       (Inl e, w3) \<Rightarrow> (Inl e, self', w3)
                     | (Inr u'', w3) \<Rightarrow> (Inr (), self', w3)))))"

definition RunAtCommand_dunder_call ::
  "'a command_scheme \<Rightarrow> string \<Rightarrow> py_arg list
     \<Rightarrow> (string \<Rightarrow> string \<Rightarrow> string + string) \<Rightarrow> (launch \<Rightarrow> outcome) \<Rightarrow> world
     \<Rightarrow> (exn + unit) \<times> 'a command_scheme \<times> world" where
  "RunAtCommand_dunder_call self dir extra fs sys w =
     (let curdir = os_path_abspath (process_cwd w) os_path_curdir
      in case RunAtCommand_try self dir extra curdir fs sys w of
           (Inr u, self', w') \<Rightarrow> (Inr (), self', w')
         | (Inl e, self', w') \<Rightarrow>
             (case os_chdir fs curdir w' of
                (Inl e', w'') \<Rightarrow> (Inl e', self', w'')
              | (Inr u, w'') \<Rightarrow> (Inl e, self', w'')))"

subsection \<open>\<^verbatim>\<open>class PristineTar\<close>\<close>

definition PristineTar_cmd :: string where
  "PristineTar_cmd = ''/usr/bin/pristine-tar''"

definition PristineTar_branch :: string where
  "PristineTar_branch = ''pristine-tar''"

text \<open>
  \<^verbatim>\<open>PristineTar.__init__\<close>; \<open>os_access_X_OK path\<close> is
  \<^verbatim>\<open>os.access(path, os.X_OK)\<close>.
\<close>

definition PristineTar_init ::
  "(string \<Rightarrow> bool) \<Rightarrow> (string \<rightharpoonup> string) \<Rightarrow> world \<Rightarrow> (exn + command) \<times> world" where
  "PristineTar_init os_access_X_OK os_environ w =
     (if \<not> os_access_X_OK PristineTar_cmd
      then (Inl (GbpError (PristineTar_cmd @ '' not found - cannot use pristine-tar'')), w)
      else (Inr (Command_init os_environ PristineTar_cmd [] False None None), w))"

subsection \<open>\<^verbatim>\<open>class GitCommand\<close> and \<^verbatim>\<open>class GitTag\<close>\<close>

definition GitCommand_init ::
  "(string \<rightharpoonup> string) \<Rightarrow> string \<Rightarrow> string list \<Rightarrow> bool \<Rightarrow> (string \<rightharpoonup> string) option
     \<Rightarrow> string option \<Rightarrow> command" where
  "GitCommand_init os_environ c a sh extra_env d =
     (Command_init os_environ ''git'' ([c] @ a) sh extra_env d)
       \<lparr>run_error := ''Couldn'' @ [CHR 0x27] @ ''t run git '' @ c\<rparr>"

record git_tag = command +
  sign_tag :: bool
  keyid :: "string option"

definition GitTag_init :: "(string \<rightharpoonup> string) \<Rightarrow> bool \<Rightarrow> string option \<Rightarrow> git_tag" where
  "GitTag_init os_environ sign key =
     command.extend (GitCommand_init os_environ ''tag'' [] False None None)
       (git_tag.fields sign key)"

text \<open>The truth value of an optional string: neither \<^verbatim>\<open>None\<close> nor empty.\<close>

definition truthy :: "string option \<Rightarrow> bool" where
  "truthy v = (case v of None \<Rightarrow> False | Some s \<Rightarrow> s \<noteq> '''')"

text \<open>
  The local variables of \<^verbatim>\<open>GitTag.__call__\<close>, as \<^verbatim>\<open>locals()\<close> gives them
  where the message is rendered.
\<close>

record tag_locals =
  l_self :: git_tag
  l_version :: string
  l_msg :: string
  l_commit :: "string option"
  l_sign_opts :: "string list"

text \<open>The signing options that \<^verbatim>\<open>GitTag.__call__\<close> chooses.\<close>

definition GitTag_sign_opts :: "git_tag \<Rightarrow> string list" where
  "GitTag_sign_opts self =
     (if sign_tag self
      then (if truthy (keyid self) then [''-u'', the (keyid self)] else [''-s''])
      else [])"

text \<open>
  \<^verbatim>\<open>GitTag.__call__(self, version, msg, commit)\<close>. The rendering of the
  message, \<^verbatim>\<open>msg % locals()\<close>, is Python's formatting operator on an arbitrary
  template (it can raise, and it can print the object itself): it is the parameter
  \<open>percent\<close>.
\<close>

definition GitTag_locals :: "git_tag \<Rightarrow> string \<Rightarrow> string \<Rightarrow> string option \<Rightarrow> tag_locals" where
  "GitTag_locals self version msg commit =
     \<lparr> l_self = self, l_version = version, l_msg = msg, l_commit = commit,
       l_sign_opts = GitTag_sign_opts self \<rparr>"

definition GitTag_dunder_call ::
  "git_tag \<Rightarrow> string \<Rightarrow> string \<Rightarrow> string option \<Rightarrow> (string \<Rightarrow> tag_locals \<Rightarrow> exn + string)
     \<Rightarrow> (launch \<Rightarrow> outcome) \<Rightarrow> world \<Rightarrow> (exn + unit) \<times> git_tag \<times> world" where
  "GitTag_dunder_call self version msg commit percent sys w =
     (let self1 = self\<lparr>run_error := ''Couldn'' @ [CHR 0x27] @ ''t tag '' @ [CHR 0x22]
                                        @ version @ [CHR 0x22]\<rparr>;
          sign_opts = GitTag_sign_opts self1
      in case percent msg (GitTag_locals self1 version msg commit) of
           Inl e \<Rightarrow> (Inl e, self1, w)
         | Inr m \<Rightarrow>
             (let cmd0 = sign_opts @ [''-m'', m, version];
                  cmd1 = (if truthy commit then cmd0 @ [the commit] else cmd0)
              in Command_dunder_call self1 cmd1 sys w))"

subsection \<open>\<^verbatim>\<open>copy_from\<close>\<close>

text \<open>
  What \<^verbatim>\<open>subprocess.Popen\<close> receives, and the two processes as the operating
  system runs them: whether each can be started, what the consumer writes to its
  standard output (or the exception that reading it raises), and the two return
  codes.
\<close>

datatype stdio = Inherited | PIPE | Stdout_of_p1

record popen_request =
  popen_args :: "string list"
  popen_stdin :: stdio
  popen_stdout :: stdio
  popen_cwd :: "string option"

record pipeline =
  popen :: "popen_request \<Rightarrow> exn option"
  p2_communicate :: "exn + string"
  p1_wait :: int
  p2_wait :: int

definition producer_request :: "string \<Rightarrow> string list \<Rightarrow> popen_request" where
  "producer_request orig_dir exclude =
     \<lparr> popen_args = [''tar''] @ exclude @ [''-cSpf'', ''-'', ''.''],
       popen_stdin = Inherited, popen_stdout = PIPE, popen_cwd = Some orig_dir \<rparr>"

definition consumer_request :: popen_request where
  "consumer_request =
     \<lparr> popen_args = [''tar'', ''-xvSpf'', ''-''],
       popen_stdin = Stdout_of_p1, popen_stdout = PIPE, popen_cwd = None \<rparr>"

text \<open>The \<^verbatim>\<open>try\<close> block of \<^verbatim>\<open>copy_from\<close>.\<close>

definition copy_from_try :: "string \<Rightarrow> string list \<Rightarrow> pipeline \<Rightarrow> exn + string list" where
  "copy_from_try orig_dir exclude os =
     (case popen os (producer_request orig_dir exclude) of
        Some e \<Rightarrow> Inl e
      | None \<Rightarrow>
          (case popen os consumer_request of
             Some e \<Rightarrow> Inl e
           | None \<Rightarrow>
               (case p2_communicate os of
                  Inl e \<Rightarrow> Inl e
                | Inr out \<Rightarrow> Inr (str_split (CHR 0x0A) out))))"

text \<open>
  \<^verbatim>\<open>copy_from(orig_dir, filters)\<close>: the handlers for \<^verbatim>\<open>OSError\<close> and
  \<^verbatim>\<open>ValueError\<close>, the test of the two return codes, and the list
  comprehension with its condition \<^verbatim>\<open>if files\<close>.
\<close>

definition copy_from :: "string \<Rightarrow> string list \<Rightarrow> pipeline \<Rightarrow> exn + string list" where
  "copy_from orig_dir filters os =
     (let exclude = map (\<lambda>f. ''--exclude='' @ f) filters
      in case copy_from_try orig_dir exclude os of
           Inl (OSError err) \<Rightarrow> Inl (GbpError (''Cannot copy files: '' @ err))
         | Inl (ValueError err) \<Rightarrow> Inl (GbpError (''Cannot copy files: '' @ err))
         | Inl other \<Rightarrow> Inl other
         | Inr files \<Rightarrow>
             (if p1_wait os \<noteq> 0 \<or> p2_wait os \<noteq> 0
              then Inl (GbpError ''Cannot copy files, pipe failed.'')
              else Inr [os_path_normpath f. f \<leftarrow> files, files \<noteq> []]))"

subsection \<open>Concrete inputs\<close>

text \<open>
  A world with an empty log, an operating system that answers every launch request
  the same way, and two invokers; the theorems below are instantiated at these.
\<close>

definition world0 :: world where
  "world0 = \<lparr> log = [], dispatched = [], process_cwd = ''/home'' \<rparr>"

definition sys_always :: "outcome \<Rightarrow> launch \<Rightarrow> outcome" where
  "sys_always out l = out"

definition cmd_false :: command where
  "cmd_false = Command_init Map.empty ''/bin/false'' [] False None None"

definition cmd_echo :: command where
  "cmd_echo = Command_init Map.empty ''echo'' [''-n'', ''-n''] True None (Some ''/tmp'')"

text \<open>A file system with the two directories \<^verbatim>\<open>/home\<close> and \<^verbatim>\<open>/tmp\<close>.\<close>

definition fs_home_tmp :: "string \<Rightarrow> string \<Rightarrow> string + string" where
  "fs_home_tmp d path =
     (if path = ''/home'' \<or> path = ''/tmp'' then Inr path
      else Inl (''[Errno 2] No such file or directory: '' @ path))"

text \<open>
  A file system on which only \<^verbatim>\<open>/tmp\<close> can be entered: the directory
  \<^verbatim>\<open>/home\<close> of a process that is in it has been removed.
\<close>

definition fs_tmp_only :: "string \<Rightarrow> string \<Rightarrow> string + string" where
  "fs_tmp_only d path =
     (if path = ''/tmp'' then Inr path
      else Inl (''[Errno 2] No such file or directory: '' @ path))"

text \<open>A system on which no file is executable.\<close>

definition access_none :: "string \<Rightarrow> bool" where
  "access_none path = False"

text \<open>The rendering of the default message, \<^verbatim>\<open>"Tagging %(version)s"\<close>.\<close>

definition percent_default :: "string \<Rightarrow> tag_locals \<Rightarrow> exn + string" where
  "percent_default msg l = Inr (''Tagging '' @ l_version l)"

text \<open>
  A pipeline whose two processes start and whose consumer prints \<open>out\<close>, with the
  given return codes; and one whose processes cannot be started.
\<close>

definition pipeline_of :: "string \<Rightarrow> int \<Rightarrow> int \<Rightarrow> pipeline" where
  "pipeline_of out rc1 rc2 =
     \<lparr> popen = (\<lambda>r. None), p2_communicate = Inr out, p1_wait = rc1, p2_wait = rc2 \<rparr>"

definition pipeline_unstartable :: "exn \<Rightarrow> pipeline" where
  "pipeline_unstartable e =
     \<lparr> popen = (\<lambda>r. Some e), p2_communicate = Inr '''', p1_wait = 0, p2_wait = 0 \<rparr>"

section \<open>Properties\<close>

subsection \<open>Shared lemmas\<close>

lemma err_lines_append: "err_lines (xs @ ys) = err_lines xs @ err_lines ys"
  by (induction xs rule: err_lines.induct) simp_all

text \<open>
  \<^verbatim>\<open>Command.__run\<close> in one equation, by the answer of the operating system.
\<close>

lemma private_run_cases:
  "Command_private_run self a sys w =
     (case sys (launch_request self a) of
        Returned n \<Rightarrow>
          (Inr n, self\<lparr>retcode := n\<rparr>,
           w\<lparr>log := log w
                    @ [Debug (cmd self @ '' '' @ str_of_list (args self) @ '' '' @ str_of_list a)]
                    @ (if n < 0
                         then [Err (cmd self @ '' was terminated by signal '' @ str_of_int (- n)),
                               Err (run_error self)]
                       else if n > 0
                         then [Err (cmd self @ '' returned '' @ str_of_int n),
                               Err (run_error self)]
                       else []),
              dispatched := dispatched w @ [launch_request self a]\<rparr>)
      | LaunchFailed e \<Rightarrow>
          (Inr 1, self\<lparr>retcode := 1\<rparr>,
           w\<lparr>log := log w
                    @ [Debug (cmd self @ '' '' @ str_of_list (args self) @ '' '' @ str_of_list a),
                       Err (''Execution failed: '' @ e), Err (run_error self)],
              dispatched := dispatched w @ [launch_request self a]\<rparr>))"
  by (simp add: Command_private_run_def Command_private_call_def Let_def log_debug_def log_err_def
           split: outcome.splits)

text \<open>\<^verbatim>\<open>Command.call\<close> in one equation.\<close>

lemma call_cases:
  "Command_call self a sys w =
     (case sys (launch_request self a) of
        Returned n \<Rightarrow>
          (Inr n, self,
           w\<lparr>log := log w
                    @ [Debug (cmd self @ '' '' @ str_of_list (args self) @ '' '' @ str_of_list a)],
              dispatched := dispatched w @ [launch_request self a]\<rparr>)
      | LaunchFailed e \<Rightarrow>
          (Inl (CommandExecFailed (Some (''Execution failed: '' @ e))), self,
           w\<lparr>log := log w
                    @ [Debug (cmd self @ '' '' @ str_of_list (args self) @ '' '' @ str_of_list a)],
              dispatched := dispatched w @ [launch_request self a]\<rparr>))"
  by (simp add: Command_call_def Command_private_call_def Let_def log_debug_def
           split: outcome.splits)

text \<open>Either form hands exactly one request to the process-launch boundary.\<close>

lemma dunder_call_dispatched:
  "dispatched (snd (snd (Command_dunder_call self a sys w)))
     = dispatched w @ [launch_request self a]"
  by (simp add: Command_dunder_call_def private_run_cases split: outcome.splits)

lemma call_dispatched:
  "dispatched (snd (snd (Command_call self a sys w))) = dispatched w @ [launch_request self a]"
  by (simp add: call_cases split: outcome.splits)

text \<open>The fields of a freshly constructed \<^verbatim>\<open>GitTag\<close>.\<close>

lemma GitTag_init_fields:
  "cmd (GitTag_init os_environ sign key) = ''git''"
  "args (GitTag_init os_environ sign key) = [''tag'']"
  "shell (GitTag_init os_environ sign key) = False"
  "cwd (GitTag_init os_environ sign key) = None"
  "env (GitTag_init os_environ sign key) = None"
  "sign_tag (GitTag_init os_environ sign key) = sign"
  "keyid (GitTag_init os_environ sign key) = key"
  by (simp_all add: GitTag_init_def GitCommand_init_def Command_init_def command.defs
        git_tag.defs)

lemma GitTag_sign_opts_run_error [simp]:
  "GitTag_sign_opts (self\<lparr>run_error := e\<rparr>) = GitTag_sign_opts self"
  by (simp add: GitTag_sign_opts_def)

lemma GitTag_sign_opts_init:
  "GitTag_sign_opts (GitTag_init os_environ sign key)
     = (if sign then (if truthy key then [''-u'', the key] else [''-s'']) else [])"
  by (simp add: GitTag_sign_opts_def GitTag_init_fields)

text \<open>Splitting never gives the empty list, so the condition \<^verbatim>\<open>if files\<close> holds.\<close>

lemma str_split_not_Nil: "str_split sep s \<noteq> []"
  by (cases s) (auto split: list.splits)

subsection \<open>The strict form\<close>

text \<open>
  C1. \<^verbatim>\<open>Command.__call__\<close>: when the child exits with code 0 the call raises
  nothing and adds no error-level line to the log. When the child exits with a code
  \<open>n > 0\<close> the call raises \<^verbatim>\<open>CommandExecFailed\<close> without a message and logs
  two error-level lines, the first of which names the program and \<open>n\<close>; when a
  signal ends the child (a negative return code) it raises the same error and the
  first line names the signal number; a launch failure is logged and raised the same
  way. So the strict form raises if and only if the operating system's answer is
  not the return code 0.
\<close>

theorem strict_form_raises_iff_nonzero:
  "(sys (launch_request self a) = Returned 0 \<longrightarrow>
      fst (Command_dunder_call self a sys w) = Inr () \<and>
      err_lines (log (snd (snd (Command_dunder_call self a sys w)))) = err_lines (log w))
   \<and> (\<forall>n. 0 < n \<and> sys (launch_request self a) = Returned n \<longrightarrow>
      fst (Command_dunder_call self a sys w) = Inl (CommandExecFailed None) \<and>
      err_lines (log (snd (snd (Command_dunder_call self a sys w))))
        = err_lines (log w) @ [cmd self @ '' returned '' @ str_of_int n, run_error self])
   \<and> (\<forall>n. n < 0 \<and> sys (launch_request self a) = Returned n \<longrightarrow>
      fst (Command_dunder_call self a sys w) = Inl (CommandExecFailed None) \<and>
      err_lines (log (snd (snd (Command_dunder_call self a sys w))))
        = err_lines (log w) @ [cmd self @ '' was terminated by signal '' @ str_of_int (- n),
                               run_error self])
   \<and> (\<forall>e. sys (launch_request self a) = LaunchFailed e \<longrightarrow>
      fst (Command_dunder_call self a sys w) = Inl (CommandExecFailed None) \<and>
      err_lines (log (snd (snd (Command_dunder_call self a sys w))))
        = err_lines (log w) @ [''Execution failed: '' @ e, run_error self])
   \<and> ((\<exists>x. fst (Command_dunder_call self a sys w) = Inl x)
        \<longleftrightarrow> sys (launch_request self a) \<noteq> Returned 0)"
  by (auto simp add: Command_dunder_call_def private_run_cases err_lines_append
           split: outcome.splits)

theorem strict_form_raises_iff_nonzero_witness:
  "fst (Command_dunder_call cmd_false [''x''] (sys_always (Returned 0)) world0) = Inr ()
   \<and> err_lines (log (snd (snd
        (Command_dunder_call cmd_false [''x''] (sys_always (Returned 0)) world0)))) = []
   \<and> fst (Command_dunder_call cmd_false [''x''] (sys_always (Returned 3)) world0)
        = Inl (CommandExecFailed None)
   \<and> err_lines (log (snd (snd
        (Command_dunder_call cmd_false [''x''] (sys_always (Returned 3)) world0))))
        = [''/bin/false returned 3'', ''Couldn't run '/bin/false'' @ [CHR 0x27]]
   \<and> fst (Command_dunder_call cmd_false [''x''] (sys_always (Returned (- 15))) world0)
        = Inl (CommandExecFailed None)
   \<and> err_lines (log (snd (snd
        (Command_dunder_call cmd_false [''x''] (sys_always (Returned (- 15))) world0))))
        = [''/bin/false was terminated by signal 15'', ''Couldn't run '/bin/false'' @ [CHR 0x27]]
   \<and> fst (Command_dunder_call cmd_false [''x''] (sys_always (LaunchFailed ''ENOENT'')) world0)
        = Inl (CommandExecFailed None)
   \<and> err_lines (log (snd (snd
        (Command_dunder_call cmd_false [''x''] (sys_always (LaunchFailed ''ENOENT'')) world0))))
        = [''Execution failed: ENOENT'', ''Couldn't run '/bin/false'' @ [CHR 0x27]]"
  using strict_form_raises_iff_nonzero [of "sys_always (Returned 0)" cmd_false "[''x'']" world0]
        strict_form_raises_iff_nonzero [of "sys_always (Returned 3)" cmd_false "[''x'']" world0]
        strict_form_raises_iff_nonzero [of "sys_always (Returned (- 15))" cmd_false "[''x'']" world0]
        strict_form_raises_iff_nonzero [of "sys_always (LaunchFailed ''ENOENT'')" cmd_false
          "[''x'']" world0]
  by (simp add: sys_always_def world0_def cmd_false_def Command_init_def str_of_int_def
        str_of_nat.simps)

subsection \<open>The lenient form\<close>

text \<open>
  C2. \<^verbatim>\<open>Command.call\<close>: whatever return code \<open>n\<close> the child gives, the call
  returns \<open>n\<close> and raises nothing; it never adds an error-level line to the log;
  it raises only when the launch fails, and then it raises
  \<^verbatim>\<open>CommandExecFailed\<close> with the text of the operating system's error after
  \<^verbatim>\<open>Execution failed: \<close>.
\<close>

theorem lenient_form_returns_code:
  "(\<forall>n. sys (launch_request self a) = Returned n \<longrightarrow>
       fst (Command_call self a sys w) = Inr n)
   \<and> (\<forall>e. sys (launch_request self a) = LaunchFailed e \<longrightarrow>
       fst (Command_call self a sys w)
         = Inl (CommandExecFailed (Some (''Execution failed: '' @ e))))
   \<and> err_lines (log (snd (snd (Command_call self a sys w)))) = err_lines (log w)
   \<and> ((\<exists>x. fst (Command_call self a sys w) = Inl x)
        \<longleftrightarrow> (\<exists>e. sys (launch_request self a) = LaunchFailed e))"
  by (auto simp add: call_cases err_lines_append split: outcome.splits)

theorem lenient_form_returns_code_witness:
  "fst (Command_call cmd_false [''x''] (sys_always (Returned 0)) world0) = Inr 0
   \<and> fst (Command_call cmd_false [''x''] (sys_always (Returned 3)) world0) = Inr 3
   \<and> fst (Command_call cmd_false [''x''] (sys_always (LaunchFailed ''ENOENT'')) world0)
        = Inl (CommandExecFailed (Some ''Execution failed: ENOENT''))
   \<and> err_lines (log (snd (snd
        (Command_call cmd_false [''x''] (sys_always (Returned 3)) world0)))) = []"
  using lenient_form_returns_code [of "sys_always (Returned 0)" cmd_false "[''x'']" world0]
        lenient_form_returns_code [of "sys_always (Returned 3)" cmd_false "[''x'']" world0]
        lenient_form_returns_code [of "sys_always (LaunchFailed ''ENOENT'')" cmd_false
          "[''x'']" world0]
  by (simp add: sys_always_def world0_def)

subsection \<open>The effective argument vector\<close>

text \<open>
  C4. An invoker constructed with program \<open>c\<close> and fixed arguments
  \<open>fixed_args\<close>, called with the arguments \<open>A\<close> through either form, hands one
  request to the process-launch boundary, and its command is the list
  \<open>[c] @ fixed_args @ A\<close>; in shell mode it is that list joined with single spaces.
\<close>

theorem effective_argument_vector:
  "dispatched (snd (snd (Command_dunder_call
       (Command_init os_environ c fixed_args sh extra_env d) A sys w)))
     = dispatched w @
       [\<lparr> launch_cmd = (if sh then ShellString (str_join '' '' ([c] @ fixed_args @ A))
                         else Argv ([c] @ fixed_args @ A)),
           launch_cwd = d,
           launch_shell = sh,
           launch_env = (case extra_env of Some extra \<Rightarrow> Some (os_environ ++ extra)
                         | None \<Rightarrow> None),
           launch_preexec_fn = Default_sigpipe \<rparr>]
   \<and> dispatched (snd (snd (Command_call
       (Command_init os_environ c fixed_args sh extra_env d) A sys w)))
     = dispatched (snd (snd (Command_dunder_call
       (Command_init os_environ c fixed_args sh extra_env d) A sys w)))"
  by (simp add: dunder_call_dispatched call_dispatched launch_request_def Command_init_def)

theorem effective_argument_vector_witness:
  "map launch_cmd (dispatched (snd (snd
      (Command_dunder_call cmd_echo [''a'', ''-n'', ''a''] (sys_always (Returned 0)) world0))))
     = [ShellString ''echo -n -n a -n a'']
   \<and> map launch_cmd (dispatched (snd (snd
      (Command_dunder_call cmd_false [''b'', ''a'', ''b''] (sys_always (Returned 0)) world0))))
     = [Argv [''/bin/false'', ''b'', ''a'', ''b'']]"
  using effective_argument_vector [of Map.empty "''echo''" "[''-n'', ''-n'']" True None
          "Some ''/tmp''" "[''a'', ''-n'', ''a'']" "sys_always (Returned 0)" world0]
        effective_argument_vector [of Map.empty "''/bin/false''" "[]" False None
          None "[''b'', ''a'', ''b'']" "sys_always (Returned 0)" world0]
  by (simp add: cmd_echo_def cmd_false_def world0_def)

subsection \<open>The last-result field\<close>

text \<open>
  C9. A freshly constructed invoker has \<open>retcode = 1\<close>: this holds for
  \<^verbatim>\<open>Command\<close> and for the constructors built on it.
\<close>

theorem fresh_invoker_retcode:
  "retcode (Command_init os_environ c a sh extra_env d) = 1
   \<and> retcode (GitCommand_init os_environ c a sh extra_env d) = 1
   \<and> retcode (GitTag_init os_environ sign key) = 1"
  by (simp add: Command_init_def GitCommand_init_def GitTag_init_def command.defs)

text \<open>
  C7, as the code has it. After a call through the strict form the field
  \<open>retcode\<close> holds the return code of that call (the exit status, minus the
  signal number for a child that a signal ended, 1 when the launch failed). A call
  through the lenient form leaves the field as it was.
\<close>

theorem last_result_strict_only:
  "retcode (fst (snd (Command_dunder_call self a sys w)))
     = (case sys (launch_request self a) of Returned n \<Rightarrow> n | LaunchFailed e \<Rightarrow> 1)
   \<and> retcode (fst (snd (Command_call self a sys w))) = retcode self"
  by (simp add: Command_dunder_call_def private_run_cases call_cases split: outcome.splits)

text \<open>
  C7, as stated, fails for the lenient form: a fresh invoker whose child exits with
  code 0 returns 0 from \<^verbatim>\<open>call\<close>, and its field \<open>retcode\<close> is still 1.
\<close>

theorem last_result_lenient_counterexample:
  "fst (Command_call (Command_init Map.empty ''/bin/true'' [] False None None)
          [''foo'', ''bar''] (sys_always (Returned 0)) world0) = Inr 0
   \<and> retcode (fst (snd (Command_call (Command_init Map.empty ''/bin/true'' [] False None None)
          [''foo'', ''bar''] (sys_always (Returned 0)) world0))) = 1"
  by (simp add: call_cases sys_always_def Command_init_def)

subsection \<open>\<^verbatim>\<open>RunAtCommand\<close>\<close>

lemma abspath_home: "os_path_abspath ''/home'' os_path_curdir = ''/home''"
  by (simp add: os_path_abspath_def os_path_curdir_def os_path_isabs_def os_path_join_def
        os_path_normpath_def startswith_def endswith_def Let_def)

text \<open>
  C5, as the code has it. Provided the operating system lets the process enter again
  the directory it was in (\<^verbatim>\<open>os.chdir\<close> to the absolute name that
  \<^verbatim>\<open>os.path.abspath\<close> computed for it succeeds and leads back to it),
  \<^verbatim>\<open>RunAtCommand.__call__\<close> leaves the process working directory as it found
  it, whether the wrapped call returns or raises. On a raising path (the directory
  \<open>dir\<close> cannot be entered, \<^verbatim>\<open>list(*args)\<close> fails, the command fails) the
  directory is restored and the error that was raised is the one the caller gets; on
  the other path the call returns nothing.
\<close>

theorem RunAtCommand_restores_cwd_if_reenterable:
  assumes "\<forall>d. fs d (os_path_abspath (process_cwd w) os_path_curdir) = Inr (process_cwd w)"
  shows "process_cwd (snd (snd (RunAtCommand_dunder_call self dir extra fs sys w)))
           = process_cwd w
         \<and> fst (RunAtCommand_dunder_call self dir extra fs sys w)
           = (case fs (process_cwd w) dir of
                Inl e \<Rightarrow> Inl (OSError e)
              | Inr d \<Rightarrow>
                  (case list_star extra of
                     Inl e \<Rightarrow> Inl e
                   | Inr a \<Rightarrow> fst (Command_dunder_call self a sys (w\<lparr>process_cwd := d\<rparr>))))"
  using assms
  by (auto simp add: RunAtCommand_dunder_call_def RunAtCommand_try_def os_chdir_def Let_def
        split: prod.splits sum.splits)

theorem RunAtCommand_restores_cwd_if_reenterable_witness:
  "(\<forall>d. fs_home_tmp d (os_path_abspath (process_cwd world0) os_path_curdir)
          = Inr (process_cwd world0))
   \<and> fst (RunAtCommand_dunder_call cmd_false ''/tmp'' [PyList [''x'']] fs_home_tmp
            (sys_always (Returned 0)) world0) = Inr ()
   \<and> process_cwd (snd (snd (RunAtCommand_dunder_call cmd_false ''/tmp'' [PyList [''x'']]
            fs_home_tmp (sys_always (Returned 0)) world0))) = ''/home''
   \<and> fst (RunAtCommand_dunder_call cmd_false ''/tmp'' [PyList [''x'']] fs_home_tmp
            (sys_always (Returned 2)) world0) = Inl (CommandExecFailed None)
   \<and> process_cwd (snd (snd (RunAtCommand_dunder_call cmd_false ''/tmp'' [PyList [''x'']]
            fs_home_tmp (sys_always (Returned 2)) world0))) = ''/home''
   \<and> fst (RunAtCommand_dunder_call cmd_false ''/nowhere'' [] fs_home_tmp
            (sys_always (Returned 0)) world0)
       = Inl (OSError ''[Errno 2] No such file or directory: /nowhere'')
   \<and> process_cwd (snd (snd (RunAtCommand_dunder_call cmd_false ''/nowhere'' []
            fs_home_tmp (sys_always (Returned 0)) world0))) = ''/home''"
proof -
  have h: "\<forall>d. fs_home_tmp d (os_path_abspath (process_cwd world0) os_path_curdir)
                = Inr (process_cwd world0)"
    by (simp add: world0_def abspath_home fs_home_tmp_def)
  have w: "process_cwd world0 = ''/home''"
    by (simp add: world0_def)
  have c0: "fst (Command_dunder_call cmd_false [''x''] (sys_always (Returned 0)) w') = Inr ()"
    for w'
    by (simp add: Command_dunder_call_def private_run_cases sys_always_def)
  have c2: "fst (Command_dunder_call cmd_false [''x''] (sys_always (Returned 2)) w')
              = Inl (CommandExecFailed None)" for w'
    by (simp add: Command_dunder_call_def private_run_cases sys_always_def)
  show ?thesis
    using h
      RunAtCommand_restores_cwd_if_reenterable [where fs = fs_home_tmp and w = world0
        and self = cmd_false and dir = "''/tmp''" and extra = "[PyList [''x'']]"
        and sys = "sys_always (Returned 0)", OF h]
      RunAtCommand_restores_cwd_if_reenterable [where fs = fs_home_tmp and w = world0
        and self = cmd_false and dir = "''/tmp''" and extra = "[PyList [''x'']]"
        and sys = "sys_always (Returned 2)", OF h]
      RunAtCommand_restores_cwd_if_reenterable [where fs = fs_home_tmp and w = world0
        and self = cmd_false and dir = "''/nowhere''" and extra = "[]"
        and sys = "sys_always (Returned 0)", OF h]
    by (simp add: w c0 c2 fs_home_tmp_def list_star_def)
qed

text \<open>
  C5, as stated for every directory and every wrapped call, fails when the prior
  directory cannot be entered again. The process is in \<^verbatim>\<open>/home\<close>, only
  \<^verbatim>\<open>/tmp\<close> can be entered and the command succeeds there: the
  \<^verbatim>\<open>os.chdir(curdir)\<close> of the \<^verbatim>\<open>try\<close> block raises, the one of the
  handler raises again, and the call ends with that \<^verbatim>\<open>OSError\<close> and the
  process in \<^verbatim>\<open>/tmp\<close>.
\<close>

theorem RunAtCommand_cwd_counterexample:
  "process_cwd world0 = ''/home''
   \<and> fst (RunAtCommand_dunder_call cmd_false ''/tmp'' [PyList [''x'']] fs_tmp_only
            (sys_always (Returned 0)) world0)
       = Inl (OSError ''[Errno 2] No such file or directory: /home'')
   \<and> process_cwd (snd (snd (RunAtCommand_dunder_call cmd_false ''/tmp'' [PyList [''x'']]
            fs_tmp_only (sys_always (Returned 0)) world0))) = ''/tmp''"
  by (simp add: RunAtCommand_dunder_call_def RunAtCommand_try_def os_chdir_def Let_def
        world0_def abspath_home fs_tmp_only_def list_star_def Command_dunder_call_def
        private_run_cases sys_always_def)

subsection \<open>\<^verbatim>\<open>PristineTar\<close>\<close>

text \<open>
  C8. When \<^verbatim>\<open>/usr/bin/pristine-tar\<close> is not an executable file, constructing
  \<^verbatim>\<open>PristineTar\<close> raises \<^verbatim>\<open>GbpError\<close> (never
  \<^verbatim>\<open>CommandExecFailed\<close>) and leaves the world as it was: nothing is handed to
  the process-launch boundary. When the file is executable the constructor returns
  an invoker.
\<close>

theorem PristineTar_init_missing_tool:
  "(\<not> os_access_X_OK PristineTar_cmd \<longrightarrow>
      PristineTar_init os_access_X_OK os_environ w
        = (Inl (GbpError (''/usr/bin/pristine-tar not found - cannot use pristine-tar'')), w))
   \<and> (os_access_X_OK PristineTar_cmd \<longrightarrow>
      (\<exists>c. PristineTar_init os_access_X_OK os_environ w = (Inr c, w)))
   \<and> (\<forall>m. fst (PristineTar_init os_access_X_OK os_environ w) \<noteq> Inl (CommandExecFailed m))"
  by (simp add: PristineTar_init_def PristineTar_cmd_def)

theorem PristineTar_init_missing_tool_witness:
  "\<not> access_none PristineTar_cmd
   \<and> PristineTar_init access_none Map.empty world0
       = (Inl (GbpError ''/usr/bin/pristine-tar not found - cannot use pristine-tar''), world0)
   \<and> dispatched (snd (PristineTar_init access_none Map.empty world0)) = []"
  using PristineTar_init_missing_tool [of access_none Map.empty world0]
  by (simp add: access_none_def world0_def)

subsection \<open>\<^verbatim>\<open>GitTag\<close>\<close>

text \<open>
  C10. The signing options of \<^verbatim>\<open>GitTag.__call__\<close>: without signing there is
  none, whatever the key id; with signing they are \<^verbatim>\<open>-u keyid\<close> when the key id
  is set (neither \<^verbatim>\<open>None\<close> nor empty) and \<^verbatim>\<open>-s\<close> otherwise. When the
  message renders to \<open>m\<close>, the command handed to the process-launch boundary is
  \<^verbatim>\<open>git tag\<close>, these options, \<^verbatim>\<open>-m m version\<close> and the commit if one is
  given; when rendering raises, nothing is dispatched.
\<close>

theorem GitTag_signing_options:
  "GitTag_sign_opts (GitTag_init os_environ False key) = []
   \<and> GitTag_sign_opts (GitTag_init os_environ True key)
       = (if truthy key then [''-u'', the key] else [''-s''])
   \<and> (case percent msg (GitTag_locals
               ((GitTag_init os_environ sign key)
                  \<lparr>run_error := ''Couldn'' @ [CHR 0x27] @ ''t tag '' @ [CHR 0x22]
                                  @ version @ [CHR 0x22]\<rparr>)
               version msg commit) of
         Inl e \<Rightarrow>
           GitTag_dunder_call (GitTag_init os_environ sign key) version msg commit percent sys w
             = (Inl e, (GitTag_init os_environ sign key)
                  \<lparr>run_error := ''Couldn'' @ [CHR 0x27] @ ''t tag '' @ [CHR 0x22]
                                  @ version @ [CHR 0x22]\<rparr>, w)
       | Inr m \<Rightarrow>
           dispatched (snd (snd (GitTag_dunder_call (GitTag_init os_environ sign key)
                                   version msg commit percent sys w)))
             = dispatched w @
               [\<lparr> launch_cmd = Argv ([''git'', ''tag'']
                                  @ (if sign then (if truthy key then [''-u'', the key]
                                                   else [''-s''])
                                     else [])
                                  @ [''-m'', m, version]
                                  @ (if truthy commit then [the commit] else [])),
                   launch_cwd = None, launch_shell = False, launch_env = None,
                   launch_preexec_fn = Default_sigpipe \<rparr>])"
proof -
  have req: "launch_request ((GitTag_init os_environ sign key)\<lparr>run_error := e\<rparr>) a
     = \<lparr> launch_cmd = Argv ([''git'', ''tag''] @ a), launch_cwd = None, launch_shell = False,
         launch_env = None, launch_preexec_fn = Default_sigpipe \<rparr>" for a e sign
    by (simp add: launch_request_def Let_def GitTag_init_fields)
  show ?thesis
    by (simp add: GitTag_sign_opts_init GitTag_dunder_call_def Let_def dunder_call_dispatched req
          split: sum.splits)
qed

theorem GitTag_signing_options_witness:
  "map launch_cmd (dispatched (snd (snd (GitTag_dunder_call
       (GitTag_init Map.empty False (Some ''ABCD'')) ''1.0'' ''Tagging %(version)s'' None
       percent_default (sys_always (Returned 0)) world0))))
     = [Argv [''git'', ''tag'', ''-m'', ''Tagging 1.0'', ''1.0'']]
   \<and> map launch_cmd (dispatched (snd (snd (GitTag_dunder_call
       (GitTag_init Map.empty True (Some ''ABCD'')) ''1.0'' ''Tagging %(version)s'' None
       percent_default (sys_always (Returned 0)) world0))))
     = [Argv [''git'', ''tag'', ''-u'', ''ABCD'', ''-m'', ''Tagging 1.0'', ''1.0'']]
   \<and> map launch_cmd (dispatched (snd (snd (GitTag_dunder_call
       (GitTag_init Map.empty True None) ''1.0'' ''Tagging %(version)s'' (Some ''HEAD'')
       percent_default (sys_always (Returned 0)) world0))))
     = [Argv [''git'', ''tag'', ''-s'', ''-m'', ''Tagging 1.0'', ''1.0'', ''HEAD'']]"
  using GitTag_signing_options [where os_environ = Map.empty and sign = False
          and key = "Some ''ABCD''" and version = "''1.0''" and msg = "''Tagging %(version)s''"
          and commit = None and percent = percent_default
          and sys = "sys_always (Returned 0)" and w = world0]
        GitTag_signing_options [where os_environ = Map.empty and sign = True
          and key = "Some ''ABCD''" and version = "''1.0''" and msg = "''Tagging %(version)s''"
          and commit = None and percent = percent_default
          and sys = "sys_always (Returned 0)" and w = world0]
        GitTag_signing_options [where os_environ = Map.empty and sign = True
          and key = None and version = "''1.0''" and msg = "''Tagging %(version)s''"
          and commit = "Some ''HEAD''" and percent = percent_default
          and sys = "sys_always (Returned 0)" and w = world0]
  by (simp add: percent_default_def GitTag_locals_def world0_def truthy_def)

subsection \<open>\<^verbatim>\<open>copy_from\<close>\<close>

text \<open>
  C6. \<^verbatim>\<open>copy_from\<close> returns a list only when both processes were started,
  the consumer's output was read and both return codes are 0. An
  \<^verbatim>\<open>OSError\<close> or a \<^verbatim>\<open>ValueError\<close> from starting either process or from
  reading the output becomes one \<^verbatim>\<open>GbpError\<close> whose message starts with
  \<^verbatim>\<open>Cannot copy files\<close>, and so does a nonzero return code of either
  process: the caller gets the error and no list.
\<close>

theorem copy_from_all_or_nothing:
  "(\<forall>files. copy_from orig_dir filters os = Inr files \<longrightarrow>
       popen os (producer_request orig_dir (map (\<lambda>f. ''--exclude='' @ f) filters)) = None
       \<and> popen os consumer_request = None
       \<and> (\<exists>out. p2_communicate os = Inr out)
       \<and> p1_wait os = 0 \<and> p2_wait os = 0)
   \<and> (\<forall>e s. (e = OSError s \<or> e = ValueError s)
         \<and> (popen os (producer_request orig_dir (map (\<lambda>f. ''--exclude='' @ f) filters)) = Some e
            \<or> popen os (producer_request orig_dir (map (\<lambda>f. ''--exclude='' @ f) filters)) = None
              \<and> popen os consumer_request = Some e
            \<or> popen os (producer_request orig_dir (map (\<lambda>f. ''--exclude='' @ f) filters)) = None
              \<and> popen os consumer_request = None \<and> p2_communicate os = Inl e)
       \<longrightarrow> copy_from orig_dir filters os = Inl (GbpError (''Cannot copy files: '' @ s)))
   \<and> (\<forall>out. popen os (producer_request orig_dir (map (\<lambda>f. ''--exclude='' @ f) filters)) = None
         \<and> popen os consumer_request = None \<and> p2_communicate os = Inr out
         \<and> (p1_wait os \<noteq> 0 \<or> p2_wait os \<noteq> 0)
       \<longrightarrow> copy_from orig_dir filters os = Inl (GbpError ''Cannot copy files, pipe failed.''))"
  by (auto simp add: copy_from_def copy_from_try_def Let_def split: option.splits sum.splits exn.splits)

theorem copy_from_all_or_nothing_witness:
  "copy_from ''src'' [''*.o''] (pipeline_unstartable (OSError ''ENOENT''))
     = Inl (GbpError ''Cannot copy files: ENOENT'')
   \<and> copy_from ''src'' [''*.o''] (pipeline_unstartable (ValueError ''bad''))
     = Inl (GbpError ''Cannot copy files: bad'')
   \<and> copy_from ''src'' [] (pipeline_of ''a.txt'' 0 2) = Inl (GbpError ''Cannot copy files, pipe failed.'')
   \<and> copy_from ''src'' [] (pipeline_of ''a.txt'' 1 0) = Inl (GbpError ''Cannot copy files, pipe failed.'')
   \<and> copy_from ''src'' [] (pipeline_of ''a.txt'' 0 0) = Inr [''a.txt'']
   \<and> p1_wait (pipeline_of ''a.txt'' 0 0) = 0 \<and> p2_wait (pipeline_of ''a.txt'' 0 0) = 0"
  using copy_from_all_or_nothing [of "''src''" "[''*.o'']" "pipeline_unstartable (OSError ''ENOENT'')"]
        copy_from_all_or_nothing [of "''src''" "[''*.o'']" "pipeline_unstartable (ValueError ''bad'')"]
        copy_from_all_or_nothing [of "''src''" "[]" "pipeline_of ''a.txt'' 0 2"]
        copy_from_all_or_nothing [of "''src''" "[]" "pipeline_of ''a.txt'' 1 0"]
        copy_from_all_or_nothing [of "''src''" "[]" "pipeline_of ''a.txt'' 0 0"]
  by (simp add: pipeline_unstartable_def pipeline_of_def copy_from_def copy_from_try_def
        os_path_normpath_def startswith_def)

text \<open>
  C3. What the list comprehension of \<^verbatim>\<open>copy_from\<close> computes. Its condition
  is \<^verbatim>\<open>if files\<close>, the list itself, and \<^verbatim>\<open>split\<close> never gives an empty
  list: so no entry is filtered out, and the result has one normalised entry for every
  piece of the output, the empty ones too. On the output \<^verbatim>\<open>a.txt\<close> followed by
  a newline the empty string after the newline is kept and comes back as
  \<^verbatim>\<open>.\<close>, as the theorem after this one evaluates.
\<close>

theorem copy_from_keeps_every_entry:
  assumes "popen os (producer_request orig_dir (map (\<lambda>f. ''--exclude='' @ f) filters)) = None"
    and "popen os consumer_request = None"
    and "p2_communicate os = Inr out"
    and "p1_wait os = 0" and "p2_wait os = 0"
  shows "copy_from orig_dir filters os = Inr (map os_path_normpath (str_split (CHR 0x0A) out))"
proof -
  have "[os_path_normpath f. f \<leftarrow> str_split (CHR 0x0A) out, str_split (CHR 0x0A) out \<noteq> []]
      = map os_path_normpath (str_split (CHR 0x0A) out)"
    by (induction "str_split (CHR 0x0A) out") (auto simp add: str_split_not_Nil)
  with assms show ?thesis
    by (simp add: copy_from_def copy_from_try_def Let_def)
qed

theorem copy_from_keeps_every_entry_witness:
  "copy_from ''src'' [] (pipeline_of (''a.txt'' @ [CHR 0x0A]) 0 0) = Inr [''a.txt'', ''.'']"
  using copy_from_keeps_every_entry [of "pipeline_of (''a.txt'' @ [CHR 0x0A]) 0 0" "''src''" "[]"
     "''a.txt'' @ [CHR 0x0A]"]
  by (simp add: pipeline_of_def os_path_normpath_def startswith_def)

end
